theory Spec2Isabelle
  imports Main "HOL-Library.Word" "HOL-Library.Sublist"
begin

section \<open>Characters and small parsing helpers (glue-compiler.cc)\<close>

text \<open>
  Chunks are byte strings (\<open>std::string\<close>), cursors are indices (\<open>size_t\<close>).
  \<open>isspace\<close>, \<open>isdigit\<close> and \<open>isalnum\<close> are the C-locale classifications.
\<close>

definition isspace :: "char \<Rightarrow> bool" where
  "isspace c = (c = CHR 0x20 \<or> c = CHR 0x09 \<or> c = CHR 0x0A \<or> c = CHR 0x0B \<or> c = CHR 0x0C \<or> c = CHR 0x0D)"

definition isdigit :: "char \<Rightarrow> bool" where
  "isdigit c = (48 \<le> (of_char c :: nat) \<and> (of_char c :: nat) \<le> 57)"

definition isalnum :: "char \<Rightarrow> bool" where
  "isalnum c = (isdigit c \<or> (65 \<le> (of_char c :: nat) \<and> (of_char c :: nat) \<le> 90)
                 \<or> (97 \<le> (of_char c :: nat) \<and> (of_char c :: nat) \<le> 122))"

definition digit_val :: "char \<Rightarrow> nat" where
  "digit_val c = (of_char c :: nat) - 48"

text \<open>
  \<open>chunk[i]\<close> on a \<open>const std::string\<close>: the character at \<open>i\<close>, and the
  terminating NUL at \<open>i = size()\<close>.
\<close>

definition char_at :: "string \<Rightarrow> nat \<Rightarrow> char" where
  "char_at chunk i = (if i < length chunk then chunk ! i else CHR 0x00)"

text \<open>\<open>chunk.substr(i, n)\<close>.\<close>

definition substr :: "string \<Rightarrow> nat \<Rightarrow> nat \<Rightarrow> string" where
  "substr chunk i n = take n (drop i chunk)"

text \<open>
  \<open>hilti::util::trim\<close>: strips the whitespace characters \<open>" \t\f\v\n\r"\<close> from both
  ends.
\<close>

definition trim :: "string \<Rightarrow> string" where
  "trim s = rev (dropWhile isspace (rev (dropWhile isspace s)))"

datatype error =
    ParseError string
  | ResultError string
  | InvalidArgument string
  | InternalError string

text \<open>
  The loops of the form \<open>while ( j < chunk.size() && p(chunk, j) ) ++j;\<close>.
\<close>

function scan_while :: "(string \<Rightarrow> nat \<Rightarrow> bool) \<Rightarrow> string \<Rightarrow> nat \<Rightarrow> nat" where
  "scan_while p chunk j = (if j < length chunk \<and> p chunk j then scan_while p chunk (Suc j) else j)"
  by pat_completeness auto
termination
  by (relation "measure (\<lambda>(p, chunk, j). length chunk - j)") auto

declare scan_while.simps [simp del]

definition eat_spaces :: "string \<Rightarrow> nat \<Rightarrow> nat" where
  "eat_spaces chunk i = scan_while (\<lambda>c k. isspace (c ! k)) chunk i"

text \<open>The \<open>for ( char j : token )\<close> loop of \<open>looking_at\<close>; 0 is "no match".\<close>

fun match_token :: "string \<Rightarrow> nat \<Rightarrow> string \<Rightarrow> nat" where
  "match_token chunk i [] = i"
| "match_token chunk i (c # cs) =
     (if i \<ge> length chunk \<or> chunk ! i \<noteq> c then 0 else match_token chunk (Suc i) cs)"

definition looking_at :: "string \<Rightarrow> nat \<Rightarrow> string \<Rightarrow> nat" where
  "looking_at chunk i token = match_token chunk (eat_spaces chunk i) token"

definition eat_token :: "string \<Rightarrow> nat \<Rightarrow> string \<Rightarrow> error + nat" where
  "eat_token chunk i token =
     (let i1 = eat_spaces chunk i; j = looking_at chunk i1 token
      in if j = 0 then Inl (ParseError (''expected token '' @ [CHR 0x27] @ token @ [CHR 0x27]))
         else Inr j)"

subsection \<open>Integer conversion\<close>

text \<open>
  \<open>hilti::util::atoi_n(s, e, 10, &result)\<close>, a library function: it throws on an empty
  range, skips one leading \<open>-\<close> or \<open>+\<close>, accumulates \<open>n = n * 10 + d\<close> over the
  leading decimal digits in the result type, and stores the (negated) value into
  \<open>*result\<close> only when at least one digit was read. The result type is a machine
  integer, a word here; \<open>int\<close> is read back with \<open>sint\<close>.
\<close>

fun atoi_digits :: "string \<Rightarrow> 'a::len word option \<Rightarrow> 'a word option" where
  "atoi_digits [] n = n"
| "atoi_digits (c # cs) n =
     (if isdigit c
      then atoi_digits cs (Some ((case n of None \<Rightarrow> 0 | Some v \<Rightarrow> v) * 10 + of_nat (digit_val c)))
      else n)"

definition atoi_n :: "string \<Rightarrow> 'a::len word \<Rightarrow> error + 'a word" where
  "atoi_n s result =
     (case s of
        [] \<Rightarrow> Inl (InvalidArgument ''cannot decode from empty range'')
      | c # cs \<Rightarrow>
          (let neg = (c = CHR ''-'');
               ds = (if c = CHR ''-'' \<or> c = CHR ''+'' then cs else s)
           in case atoi_digits ds None of
                None \<Rightarrow> Inr result
              | Some n \<Rightarrow> Inr (if neg then - n else n)))"

subsection \<open>extract_int\<close>

definition extract_int :: "string \<Rightarrow> nat \<Rightarrow> error + (int \<times> nat)" where
  "extract_int chunk i0 =
     (let i = eat_spaces chunk i0;
          j = i;
          j = (if j < length chunk
               then (let j1 = (if char_at chunk j = CHR ''-'' then Suc j else j)
                     in if char_at chunk j1 = CHR ''+'' then Suc j1 else j1)
               else j);
          j = scan_while (\<lambda>c k. isdigit (c ! k)) chunk j
      in if i = j then Inl (ParseError ''expected integer'')
         else (case atoi_n (substr chunk i (j - i)) (0 :: 32 word) of
                 Inl e \<Rightarrow> Inl e
               | Inr integer \<Rightarrow> Inr (sint integer, j)))"

subsection \<open>extract_id, extract_path, extract_expr\<close>

definition is_id_char :: "string \<Rightarrow> nat \<Rightarrow> bool" where
  "is_id_char chunk i =
     (let c = chunk ! i;
          prev = (if i > 0 then chunk ! (i - 1) else CHR 0x00);
          next = (if i + 1 < length chunk then chunk ! (i + 1) else CHR 0x00)
      in if isalnum c then True
         else if c = CHR ''_'' \<or> c = CHR ''$'' \<or> c = CHR ''%'' \<or> c = CHR 0x00 then True
         else if c = CHR '':'' \<and> next = CHR '':'' then True
         else if c = CHR '':'' \<and> prev = CHR '':'' then True
         else False)"


text \<open>\<open>hilti::util::replace(id, "%", "0x25_")\<close>.\<close>

definition replace_percent :: "string \<Rightarrow> string" where
  "replace_percent s = concat (map (\<lambda>c. if c = CHR ''%'' then ''0x25_'' else [c]) s)"

definition extract_id :: "string \<Rightarrow> nat \<Rightarrow> error + (string \<times> nat)" where
  "extract_id chunk i0 =
     (let i = eat_spaces chunk i0;
          j = scan_while is_id_char chunk i
      in if i = j then Inl (ParseError ''expected id'')
         else Inr (replace_percent (substr chunk i (j - i)), j))"


text \<open>
  The loop of \<open>extract_expr\<close>: \<open>level\<close> is an \<open>int\<close>; the loop ends at a top-level
  \<open>)\<close> or \<open>,\<close> (both leave \<open>j\<close> where it is), or at the end of the chunk. The test
  \<open>*i == j\<close> at the end of the body can only hold when \<open>done\<close> is set.
\<close>

function extract_expr_loop :: "string \<Rightarrow> nat \<Rightarrow> int \<Rightarrow> error + nat" where
  "extract_expr_loop chunk j level =
     (if j < length chunk
      then (let c = chunk ! j
            in if c = CHR ''('' \<or> c = CHR ''['' \<or> c = CHR ''{''
               then extract_expr_loop chunk (Suc j) (level + 1)
               else if c = CHR '')'' \<and> level = 0 then Inr j
               else if c = CHR '')'' \<or> c = CHR '']'' \<or> c = CHR ''}''
               then (if level = 0 then Inl (ParseError ''expected Spicy expression'')
                     else extract_expr_loop chunk (Suc j) (level - 1))
               else if c = CHR '','' \<and> level = 0 then Inr j
               else extract_expr_loop chunk (Suc j) level)
      else Inr j)"
  by pat_completeness auto
termination
  by (relation "measure (\<lambda>(chunk, j, level). length chunk - j)") auto

declare extract_expr_loop.simps [simp del]

definition extract_expr :: "string \<Rightarrow> nat \<Rightarrow> error + (string \<times> nat)" where
  "extract_expr chunk i0 =
     (let i = eat_spaces chunk i0
      in case extract_expr_loop chunk i 0 of
           Inl e \<Rightarrow> Inl e
         | Inr j \<Rightarrow> Inr (trim (substr chunk i (j - i)), j))"

subsection \<open>extract_port, extract_ports\<close>

text \<open>\<open>hilti::rt::Protocol\<close> and \<open>hilti::rt::Port\<close> (a 16-bit port number and a protocol).\<close>

datatype protocol = Undef | TCP | UDP | ICMP

type_synonym port = "16 word \<times> protocol"

definition extract_port :: "string \<Rightarrow> nat \<Rightarrow> error + (port \<times> nat)" where
  "extract_port chunk i0 =
     (let i = eat_spaces chunk i0;
          j = scan_while (\<lambda>c k. isdigit (c ! k)) chunk i
      in if i = j then Inl (ParseError ''cannot parse port specification'')
         else (case atoi_n (substr chunk i (j - i)) (- 1 :: 64 word) of
                 Inl e \<Rightarrow> Inl e
               | Inr port \<Rightarrow>
                   if port > 65535 then Inl (ParseError ''port outside of valid range'')
                   else if char_at chunk j \<noteq> CHR ''/''
                   then Inl (ParseError ''cannot parse port specification'')
                   else (let i1 = Suc j
                         in if looking_at chunk i1 ''tcp'' \<noteq> 0
                            then (case eat_token chunk i1 ''tcp'' of
                                    Inl e \<Rightarrow> Inl e
                                  | Inr i2 \<Rightarrow> Inr ((ucast port, TCP), i2))
                            else if looking_at chunk i1 ''udp'' \<noteq> 0
                            then (case eat_token chunk i1 ''udp'' of
                                    Inl e \<Rightarrow> Inl e
                                  | Inr i2 \<Rightarrow> Inr ((ucast port, UDP), i2))
                            else if looking_at chunk i1 ''icmp'' \<noteq> 0
                            then (case eat_token chunk i1 ''icmp'' of
                                    Inl e \<Rightarrow> Inl e
                                  | Inr i2 \<Rightarrow> Inr ((ucast port, ICMP), i2))
                            else Inl (ParseError ''cannot parse port specification''))))"

text \<open>
  The loop of \<open>extract_ports\<close>,
  \<open>for ( auto port = start.port(); ! end || port <= end->port(); ++port )\<close>:
  \<open>port\<close> is a \<open>uint16_t\<close>, so \<open>++port\<close> wraps. The loop has no bound of its own, so
  the model counts iterations with fuel: \<open>None\<close> means that the loop is still running
  after that many iterations.
\<close>

fun extract_ports_loop ::
  "nat \<Rightarrow> 16 word \<Rightarrow> port option \<Rightarrow> protocol \<Rightarrow> port list \<Rightarrow> port list option" where
  "extract_ports_loop 0 port end' proto result = None"
| "extract_ports_loop (Suc fuel) port end' proto result =
     (case end' of
        None \<Rightarrow> Some (result @ [(port, proto)])
      | Some e \<Rightarrow>
          if port \<le> fst e
          then extract_ports_loop fuel (port + 1) end' proto (result @ [(port, proto)])
          else Some result)"

definition extract_ports :: "nat \<Rightarrow> string \<Rightarrow> nat \<Rightarrow> (error + (port list \<times> nat)) option" where
  "extract_ports fuel chunk i0 =
     (case extract_port chunk i0 of
        Inl e \<Rightarrow> Some (Inl e)
      | Inr (start, i1) \<Rightarrow>
          (case (if looking_at chunk i1 ''-'' \<noteq> 0
                 then (case eat_token chunk i1 ''-'' of
                         Inl e \<Rightarrow> Inl e
                       | Inr i2 \<Rightarrow>
                           (case extract_port chunk i2 of
                              Inl e \<Rightarrow> Inl e
                            | Inr (e, i3) \<Rightarrow> Inr (Some e, i3)))
                 else Inr (None, i1)) of
             Inl e \<Rightarrow> Some (Inl e)
           | Inr (end', i) \<Rightarrow>
               (case end' of
                  Some e \<Rightarrow>
                    if snd start \<noteq> snd e
                    then Some (Inl (ParseError ''start and end of port range must have same protocol''))
                    else if fst start > fst e
                    then Some (Inl (ParseError ''start of port range cannot be after its end''))
                    else map_option (\<lambda>r. Inr (r, i))
                           (extract_ports_loop fuel (fst start) end' (snd start) [])
                | None \<Rightarrow>
                    map_option (\<lambda>r. Inr (r, i))
                      (extract_ports_loop fuel (fst start) end' (snd start) []))))"

section \<open>The chunk scanner: GlueCompiler::getNextEvtBlock\<close>




section \<open>Identifiers and generated expressions\<close>

text \<open>
  \<open>hilti::ID\<close> is a string of components joined by \<open>::\<close>. \<open>namespace_()\<close> and
  \<open>local()\<close> split at the last \<open>::\<close> (\<open>util::rsplit1\<close>: without a separator the
  namespace is empty and the whole string is the local part); \<open>a + b\<close> joins two ids
  with \<open>::\<close>, and an empty side contributes nothing.
\<close>

type_synonym ID = string

fun rsplit_rev :: "string \<Rightarrow> string \<Rightarrow> (string \<times> string) option" where
  "rsplit_rev (c # d # cs) acc =
     (if c = CHR '':'' \<and> d = CHR '':'' then Some (rev cs, acc) else rsplit_rev (d # cs) (c # acc))"
| "rsplit_rev cs acc = None"

definition rsplit1 :: "string \<Rightarrow> string \<times> string" where
  "rsplit1 s = (case rsplit_rev (rev s) [] of None \<Rightarrow> ([], s) | Some p \<Rightarrow> p)"

definition id_namespace :: "ID \<Rightarrow> ID" where
  "id_namespace i = fst (rsplit1 i)"

definition id_local :: "ID \<Rightarrow> ID" where
  "id_local i = snd (rsplit1 i)"

definition id_plus :: "ID \<Rightarrow> ID \<Rightarrow> ID" where
  "id_plus a b = (if b = [] then a else if a = [] then b else a @ ''::'' @ b)"

text \<open>The expressions and statements that \<open>hilti::builder\<close> constructs.\<close>

datatype expr =
    Call string "expr list"
  | EString string
  | EInteger int
  | EId string
  | EBool bool
  | ENull
  | EPort port
  | EScope
  | EVector "expr list"
  | ETuple "expr list"

section \<open>The type projector: VisitorZeekType\<close>

text \<open>
  A HILTI type: its type id, when it was declared under a name (\<open>t.typeID()\<close>), and
  its kind with the component types. Enum labels carry their value; struct fields their
  id, type and optionality; tuple elements an optional id and a type; unit items are
  fields (id, item type, transient, parse type is void), variables (id, item type,
  optional) or other items such as switches.
\<close>

datatype hilti_type = Type (typeID: "ID option") (kind: type_kind)
and type_kind =
    TyAddress | TyBool | TyBytes | TyInterval | TyPort | TyReal | TySignedInteger
  | TyString | TyTime | TyUnsignedInteger
  | TyEnum "(string \<times> int) list"
  | TyMap hilti_type hilti_type
  | TyOptional hilti_type
  | TySet hilti_type
  | TyStruct "(string \<times> hilti_type \<times> bool) list"
  | TyTuple "(string option \<times> hilti_type) list"
  | TyUnit "unit_item list"
  | TyVector hilti_type
  | TyOther string
and unit_item =
    ItemField string hilti_type bool bool
  | ItemVariable string hilti_type bool
  | ItemOther

text \<open>
  \<open>GlueCompiler::recordFields\<close> with \<open>VisitorUnitFields\<close>: the non-transient,
  non-void fields (optional) and the variables of a unit, in item order.
\<close>

fun recordFields :: "unit_item list \<Rightarrow> (string \<times> hilti_type \<times> bool) list" where
  "recordFields [] = []"
| "recordFields (ItemField f t transient void # items) =
     (if transient \<or> void then recordFields items else (f, t, True) # recordFields items)"
| "recordFields (ItemVariable f t opt # items) = (f, t, opt) # recordFields items"
| "recordFields (ItemOther # items) = recordFields items"

text \<open>
  The visitor's members: the set \<open>zeek_types\<close> of ids under construction and the
  current id \<open>id\<close>, one \<open>std::optional<hilti::ID>\<close> member shared by all (nested)
  calls.
\<close>

record visitor =
  zeek_types :: "ID set"
  cur_id :: "ID option"

text \<open>
  Outcomes that are not a \<open>hilti::Result\<close>: a failed \<open>assert(id)\<close>, and the
  dereference of the empty optional \<open>id\<close> (\<open>*id\<close>, \<open>id->\<close>), which C++ leaves
  undefined. The model stops at both; \<open>Failure\<close> is the error of a \<open>hilti::Result\<close>.
\<close>

datatype failure =
    Failure string
  | AssertionFailed string
  | UndefinedDeref string

definition base_type :: "string \<Rightarrow> expr" where
  "base_type tag = Call ''zeek_rt::create_base_type'' [EId tag]"

definition is_abort :: "failure + 'a \<Rightarrow> bool" where
  "is_abort r = (case r of Inl (Failure m) \<Rightarrow> False | Inl _ \<Rightarrow> True | Inr _ \<Rightarrow> False)"

definition record_call :: "visitor \<Rightarrow> expr list \<Rightarrow> failure + expr" where
  "record_call v flds =
     (case cur_id v of
        None \<Rightarrow> Inl (UndefinedDeref ''id'')
      | Some i \<Rightarrow> Inr (Call ''zeek_rt::create_record_type''
                         [EString (id_namespace i), EString (id_local i), EVector flds]))"

text \<open>
  \<open>createZeekType\<close>, the visitor's operators (\<open>dispatch\<close>; \<open>None\<close> when no operator
  matches the type) and the field loops of the struct, tuple and unit operators. The unit
  loop runs over the items and takes those that \<open>recordFields\<close> keeps.
\<close>

function createZeekType :: "visitor \<Rightarrow> hilti_type \<Rightarrow> ID option \<Rightarrow> (failure + expr) \<times> visitor"
and dispatch :: "visitor \<Rightarrow> type_kind \<Rightarrow> (failure + expr) option \<times> visitor"
and struct_fields ::
  "visitor \<Rightarrow> (string \<times> hilti_type \<times> bool) list \<Rightarrow> expr list \<Rightarrow> (failure + expr list) \<times> visitor"
and tuple_fields ::
  "visitor \<Rightarrow> (string option \<times> hilti_type) list \<Rightarrow> expr list \<Rightarrow> (failure + expr list) \<times> visitor"
and unit_fields ::
  "visitor \<Rightarrow> unit_item list \<Rightarrow> expr list \<Rightarrow> (failure + expr list) \<times> visitor"
where
  "createZeekType v t id0 =
     (let i = (case id0 of Some x \<Rightarrow> Some x | None \<Rightarrow> typeID t);
          v1 = v\<lparr>cur_id := i\<rparr>
      in if (case i of Some x \<Rightarrow> x \<in> zeek_types v1 | None \<Rightarrow> False)
         then (Inl (Failure ''type is self-recursive''), v1)
         else (let v2 = (case i of Some x \<Rightarrow> v1\<lparr>zeek_types := insert x (zeek_types v1)\<rparr>
                                 | None \<Rightarrow> v1)
               in case dispatch v2 (kind t) of
                    (None, v3) \<Rightarrow>
                      (Inl (Failure ''no support for automatic conversion into a Zeek type''), v3)
                  | (Some x, v3) \<Rightarrow>
                      if is_abort x then (x, v3)
                      else (case cur_id v3 of
                              None \<Rightarrow> (Inl (UndefinedDeref ''id''), v3)
                            | Some j \<Rightarrow> (x, v3\<lparr>zeek_types := zeek_types v3 - {j}\<rparr>))))"
| "dispatch v k =
     (case k of
        TyAddress \<Rightarrow> (Some (Inr (base_type ''zeek_rt::ZeekTypeTag::Addr'')), v)
      | TyBool \<Rightarrow> (Some (Inr (base_type ''zeek_rt::ZeekTypeTag::Bool'')), v)
      | TyBytes \<Rightarrow> (Some (Inr (base_type ''zeek_rt::ZeekTypeTag::String'')), v)
      | TyInterval \<Rightarrow> (Some (Inr (base_type ''zeek_rt::ZeekTypeTag::Interval'')), v)
      | TyPort \<Rightarrow> (Some (Inr (base_type ''zeek_rt::ZeekTypeTag::Port'')), v)
      | TyReal \<Rightarrow> (Some (Inr (base_type ''zeek_rt::ZeekTypeTag::Double'')), v)
      | TySignedInteger \<Rightarrow> (Some (Inr (base_type ''zeek_rt::ZeekTypeTag::Int'')), v)
      | TyString \<Rightarrow> (Some (Inr (base_type ''zeek_rt::ZeekTypeTag::String'')), v)
      | TyTime \<Rightarrow> (Some (Inr (base_type ''zeek_rt::ZeekTypeTag::Time'')), v)
      | TyUnsignedInteger \<Rightarrow> (Some (Inr (base_type ''zeek_rt::ZeekTypeTag::Count'')), v)
      | TyEnum labels \<Rightarrow>
          (case cur_id v of
             None \<Rightarrow> (Some (Inl (AssertionFailed ''id'')), v)
           | Some i \<Rightarrow>
               (Some (Inr (Call ''zeek_rt::create_enum_type''
                        [EString (id_namespace i), EString (id_local i),
                         EVector (map (\<lambda>l. ETuple [EString (fst l), EInteger (snd l)]) labels)])), v))
      | TyMap kt vt \<Rightarrow>
          (case createZeekType v kt None of
             (Inl e, v1) \<Rightarrow> (Some (Inl e), v1)
           | (Inr key, v1) \<Rightarrow>
               (case createZeekType v1 vt None of
                  (Inl e, v2) \<Rightarrow> (Some (Inl e), v2)
                | (Inr val, v2) \<Rightarrow>
                    (Some (Inr (Call ''zeek_rt::create_table_type'' [key, val])), v2)))
      | TyOptional t \<Rightarrow> (case createZeekType v t None of (r, v1) \<Rightarrow> (Some r, v1))
      | TySet t \<Rightarrow>
          (case createZeekType v t None of
             (Inl e, v1) \<Rightarrow> (Some (Inl e), v1)
           | (Inr elem, v1) \<Rightarrow>
               (Some (Inr (Call ''zeek_rt::create_table_type'' [elem, ENull])), v1))
      | TyStruct fs \<Rightarrow>
          (case cur_id v of
             None \<Rightarrow> (Some (Inl (AssertionFailed ''id'')), v)
           | Some i \<Rightarrow>
               (case struct_fields v fs [] of
                  (Inl e, v1) \<Rightarrow> (Some (Inl e), v1)
                | (Inr flds, v1) \<Rightarrow> (Some (record_call v1 flds), v1)))
      | TyTuple es \<Rightarrow>
          (case tuple_fields v es [] of
             (Inl e, v1) \<Rightarrow> (Some (Inl e), v1)
           | (Inr flds, v1) \<Rightarrow> (Some (record_call v1 flds), v1))
      | TyUnit items \<Rightarrow>
          (case cur_id v of
             None \<Rightarrow> (Some (Inl (AssertionFailed ''id'')), v)
           | Some i \<Rightarrow>
               (case unit_fields v items [] of
                  (Inl e, v1) \<Rightarrow> (Some (Inl e), v1)
                | (Inr flds, v1) \<Rightarrow> (Some (record_call v1 flds), v1)))
      | TyVector t \<Rightarrow>
          (case createZeekType v t None of
             (Inl e, v1) \<Rightarrow> (Some (Inl e), v1)
           | (Inr elem, v1) \<Rightarrow>
               (Some (Inr (Call ''zeek_rt::create_vector_type'' [elem])), v1))
      | TyOther n \<Rightarrow> (None, v))"
| "struct_fields v fs flds =
     (case fs of
        [] \<Rightarrow> (Inr flds, v)
      | f # rest \<Rightarrow>
          (case createZeekType v (fst (snd f)) None of
             (Inl e, v1) \<Rightarrow> (Inl e, v1)
           | (Inr ztype, v1) \<Rightarrow>
               struct_fields v1 rest (flds @ [ETuple [EString (fst f), ztype, EBool (snd (snd f))]])))"
| "tuple_fields v es flds =
     (case es of
        [] \<Rightarrow> (Inr flds, v)
      | f # rest \<Rightarrow>
          (case fst f of
             None \<Rightarrow>
               (Inl (Failure ''can only convert tuple types with all-named fields to Zeek''), v)
           | Some n \<Rightarrow>
               (case createZeekType v (snd f) None of
                  (Inl e, v1) \<Rightarrow> (Inl e, v1)
                | (Inr ztype, v1) \<Rightarrow>
                    tuple_fields v1 rest (flds @ [ETuple [EString n, ztype, EBool False]]))))"
| "unit_fields v items flds =
     (case items of
        [] \<Rightarrow> (Inr flds, v)
      | item # rest \<Rightarrow>
          (case item of
             ItemField f t transient void \<Rightarrow>
               if transient \<or> void then unit_fields v rest flds
               else (case createZeekType v t None of
                       (Inl e, v1) \<Rightarrow> (Inl e, v1)
                     | (Inr ztype, v1) \<Rightarrow>
                         unit_fields v1 rest (flds @ [ETuple [EString f, ztype, EBool True]]))
           | ItemVariable f t opt \<Rightarrow>
               (case createZeekType v t None of
                  (Inl e, v1) \<Rightarrow> (Inl e, v1)
                | (Inr ztype, v1) \<Rightarrow>
                    unit_fields v1 rest (flds @ [ETuple [EString f, ztype, EBool opt]]))
           | ItemOther \<Rightarrow> unit_fields v rest flds))"
  by pat_completeness auto
termination
  apply (relation "measure (\<lambda>x. case x of
      Inl (Inl (v, t, i)) \<Rightarrow> 2 * size t + 1
    | Inl (Inr (v, k)) \<Rightarrow> 2 * size k
    | Inr (Inl (v, fs, flds)) \<Rightarrow> 2 * size_list (size_prod (\<lambda>_. 0) (size_prod size (\<lambda>_. 0))) fs
    | Inr (Inr (Inl (v, es, flds))) \<Rightarrow> 2 * size_list (size_prod (\<lambda>_. 0) size) es
    | Inr (Inr (Inr (v, items, flds))) \<Rightarrow> 2 * size_list size items)")
  apply simp
  apply simp_all
  subgoal for v t by (cases t) simp
  subgoal for fs x21 by (cases x21 rule: prod_cases3) simp
  subgoal for es x21 by (cases x21) simp
  done

declare createZeekType.simps [simp del] dispatch.simps [simp del] struct_fields.simps [simp del]
  tuple_fields.simps [simp del] unit_fields.simps [simp del]

text \<open>\<open>GlueCompiler::createZeekType\<close>: a fresh visitor for every exported type.\<close>

definition GlueCompiler_createZeekType :: "hilti_type \<Rightarrow> ID \<Rightarrow> failure + expr" where
  "GlueCompiler_createZeekType t i =
     (if id_namespace i \<noteq> []
      then fst (createZeekType \<lparr>zeek_types = {}, cur_id = None\<rparr> t (Some i))
      else Inl (Failure ''exported ID must be fully qualified''))"

text \<open>Example types: an enum, a struct with one field of that enum, and a struct with two
  sibling fields of that struct. None of them refers to itself.\<close>

definition example_enum :: hilti_type where
  "example_enum = Type (Some ''M::E'') (TyEnum [(''A'', 1), (''Undef'', - 1)])"

definition example_inner :: hilti_type where
  "example_inner = Type (Some ''M::S'') (TyStruct [(''x'', example_enum, False)])"

definition example_outer :: hilti_type where
  "example_outer =
     Type (Some ''M::T'') (TyStruct [(''a'', example_inner, False), (''b'', example_inner, False)])"

section \<open>Runtime support (runtime-support.cc)\<close>

datatype rt_error =
    TypeMismatch string string
  | InvalidValue string string
  | FatalError string

subsection \<open>create_enum_type\<close>

text \<open>
  Host types, as far as \<open>create_enum_type\<close> needs them: an enum type is its name and
  the names added to it, each with its module and value (the calls of \<open>AddName\<close>, in
  order). The host's table of global types (\<open>OurPlugin->findType\<close>) is a parameter.
\<close>

datatype zeek_tag = TYPE_ENUM | TYPE_RECORD | TYPE_OTHER

datatype zeek_type =
    EnumType string "(string \<times> string \<times> int) list"
  | RecordType string
  | OtherType string

fun Tag :: "zeek_type \<Rightarrow> zeek_tag" where
  "Tag (EnumType n es) = TYPE_ENUM"
| "Tag (RecordType n) = TYPE_RECORD"
| "Tag (OtherType n) = TYPE_OTHER"

definition findType ::
  "(string \<rightharpoonup> zeek_type) \<Rightarrow> zeek_tag \<Rightarrow> string \<Rightarrow> string \<Rightarrow> rt_error + zeek_type option" where
  "findType host tag ns i =
     (let id1 = ns @ ''::'' @ i
      in case host id1 of
           None \<Rightarrow> Inr None
         | Some ty \<Rightarrow>
             if Tag ty \<noteq> tag then Inl (FatalError (''ID '' @ id1 @ '' is not of expected type''))
             else Inr (Some ty))"

fun AddName :: "zeek_type \<Rightarrow> string \<Rightarrow> string \<Rightarrow> int \<Rightarrow> zeek_type" where
  "AddName (EnumType n es) module_name name val = EnumType n (es @ [(module_name, name, val)])"
| "AddName ty module_name name val = ty"

text \<open>
  The loop over the labels. \<open>zeek_int_max\<close> stands for
  \<open>std::numeric_limits<::zeek_int_t>::max()\<close>; the host declares \<open>zeek_int_t\<close>, so its
  maximum is a parameter. Label values are \<open>safe<int64_t>\<close>; nothing is computed with
  them.
\<close>

fun add_labels :: "int \<Rightarrow> string \<Rightarrow> string \<Rightarrow> (string \<times> int) list \<Rightarrow> zeek_type \<Rightarrow> zeek_type" where
  "add_labels zeek_int_max ns i [] etype = etype"
| "add_labels zeek_int_max ns i ((lid, lval) # labels) etype =
     (let name = i @ ''_'' @ lid;
          lval1 = (if lval = - 1 then zeek_int_max else lval)
      in add_labels zeek_int_max ns i labels (AddName etype ns name lval1))"

definition create_enum_type ::
  "(string \<rightharpoonup> zeek_type) \<Rightarrow> int \<Rightarrow> string \<Rightarrow> string \<Rightarrow> (string \<times> int) list \<Rightarrow> rt_error + zeek_type" where
  "create_enum_type host zeek_int_max ns i labels =
     (case findType host TYPE_ENUM ns i of
        Inl e \<Rightarrow> Inl e
      | Inr (Some t) \<Rightarrow> Inr t
      | Inr None \<Rightarrow> Inr (add_labels zeek_int_max ns i labels (EnumType (ns @ ''::'' @ i) [])))"

subsection \<open>raise_event\<close>

text \<open>
  An event handler with the types of its declared parameters; argument values are
  \<open>ValPtr\<close>s, \<open>None\<close> for a null pointer; the event manager's queue is the list of
  enqueued events. The result is the exception thrown, if any, and the queue.
\<close>

record 'ty event_handler =
  handler_name :: string
  param_types :: "'ty list"

fun collect_args :: "'v option list \<Rightarrow> 'v list \<Rightarrow> string \<Rightarrow> rt_error + 'v list" where
  "collect_args [] vl location = Inr vl"
| "collect_args (v # args) vl location =
     (case v of
        Some x \<Rightarrow> collect_args args (vl @ [x]) location
      | None \<Rightarrow> Inl (InvalidValue ''null value encountered after conversion'' location))"

definition raise_event ::
  "'ty event_handler \<Rightarrow> 'v option list \<Rightarrow> string \<Rightarrow> ('ty event_handler \<times> 'v list) list
     \<Rightarrow> rt_error option \<times> ('ty event_handler \<times> 'v list) list" where
  "raise_event handler args location queue =
     (if length args \<noteq> length (param_types handler)
      then (Some (TypeMismatch ''unexpected number of parameters'' location), queue)
      else (case collect_args args [] location of
              Inl e \<Rightarrow> (Some e, queue)
            | Inr vl \<Rightarrow> (None, queue @ [(handler, vl)])))"

section \<open>The conditional preprocessor: GlueCompiler::preprocessEvtFile\<close>

text \<open>
  A source location is a path and a line number. The preprocessor object
  (\<open>hilti::util::SourceCodePreprocessor\<close>) belongs to a library: the model takes it as a
  parameter, a state type with the four operations that \<open>preprocessEvtFile\<close> uses
  (construction from the value of \<open>ZEEK_VERSION\<close>, \<open>processLine\<close>, \<open>state\<close>,
  \<open>expectingDirective\<close>). Streams are the characters not yet read and the characters
  written; \<open>getline\<close> is \<open>std::getline\<close>, which fails when no character is left.
  \<open>split1\<close> and \<open>startsWith\<close> are the functions of \<open>hilti::util\<close>.
\<close>

type_synonym location = "string \<times> nat"



definition getline :: "string \<Rightarrow> (string \<times> string) option" where
  "getline inp =
     (if inp = [] then None
      else Some (takeWhile (\<lambda>c. c \<noteq> CHR 0x0A) inp, drop 1 (dropWhile (\<lambda>c. c \<noteq> CHR 0x0A) inp)))"



text \<open>Each line read shortens the stream: the loops over \<open>getline\<close> terminate.\<close>

lemma getline_shorter: "getline inp = Some (l, rest) \<Longrightarrow> length rest < length inp"
proof -
  assume a: "getline inp = Some (l, rest)"
  then have ne: "inp \<noteq> []" and r: "rest = drop 1 (dropWhile (\<lambda>c. c \<noteq> CHR 0x0A) inp)"
    by (auto simp: getline_def split: if_splits)
  have "length (dropWhile (\<lambda>c. c \<noteq> CHR 0x0A) inp) \<le> length inp"
    by (rule length_dropWhile_le)
  with ne r show ?thesis by (cases "dropWhile (\<lambda>c. c \<noteq> CHR 0x0A) inp") auto
qed




text \<open>
  For the statements about lines: the lines of a stream as \<open>getline\<close> reads them, which
  lines are directives, what is written for a line read in a given preprocessor state,
  the preprocessor states in which the successive lines are read (up to and including the
  first directive that the preprocessor rejects), and whether every directive is accepted.
\<close>

function split_lines :: "string \<Rightarrow> string list" where
  "split_lines inp = (case getline inp of None \<Rightarrow> [] | Some (l, rest) \<Rightarrow> l # split_lines rest)"
  by pat_completeness auto
termination
  by (relation "measure length") (auto simp: getline_shorter)

declare split_lines.simps [simp del]













section \<open>Declarations and statement parsers\<close>

text \<open>
  What the driver's type index returns for an id (\<open>TypeInfo\<close>): the id, the type, and
  the module that declares it.
\<close>

record type_info =
  ti_id :: ID
  ti_type :: hilti_type
  ti_module_id :: ID
  ti_module_path :: string

record protocol_analyzer =
  pa_location :: location
  pa_name :: string
  pa_protocol :: protocol
  pa_ports :: "port list"
  pa_unit_name_orig :: ID
  pa_unit_name_resp :: ID
  pa_replaces :: ID
  pa_unit_orig :: "type_info option"
  pa_unit_resp :: "type_info option"

record file_analyzer =
  fa_location :: location
  fa_name :: string
  fa_mime_types :: "string list"
  fa_unit_name :: ID
  fa_replaces :: ID
  fa_unit :: "type_info option"

record packet_analyzer =
  pk_location :: location
  pk_name :: string
  pk_unit_name :: ID
  pk_replaces :: ID
  pk_unit :: "type_info option"

text \<open>An expression accessor: its number, the expression text and the location.\<close>

type_synonym expression_accessor = "nat \<times> string \<times> location"

record event =
  ev_file :: string
  ev_name :: ID
  ev_path :: ID
  ev_condition :: string
  ev_exprs :: "string list"
  ev_priority :: int
  ev_location :: location
  ev_unit :: ID
  ev_hook :: ID
  ev_unit_type :: "hilti_type option"
  ev_unit_module_id :: ID
  ev_unit_module_path :: string
  ev_spicy_module :: "ID option"
  ev_expression_accessors :: "expression_accessor list"

definition new_protocol_analyzer :: "location \<Rightarrow> protocol_analyzer" where
  "new_protocol_analyzer loc =
     \<lparr>pa_location = loc, pa_name = [], pa_protocol = Undef, pa_ports = [],
      pa_unit_name_orig = [], pa_unit_name_resp = [], pa_replaces = [],
      pa_unit_orig = None, pa_unit_resp = None\<rparr>"



definition new_event :: "location \<Rightarrow> event" where
  "new_event loc =
     \<lparr>ev_file = [], ev_name = [], ev_path = [], ev_condition = [], ev_exprs = [],
      ev_priority = - 1000, ev_location = loc, ev_unit = [], ev_hook = [], ev_unit_type = None,
      ev_unit_module_id = [], ev_unit_module_path = [], ev_spicy_module = None,
      ev_expression_accessors = []\<rparr>"

text \<open>
  Sequencing of steps that may throw (\<open>Inl\<close>), and of steps that in addition may still be
  running when the fuel is used up (\<open>None\<close>). The \<open>while ( true )\<close> loops of the
  parsers are counted with fuel; every iteration that does not throw consumes input.
\<close>

definition bind_err :: "'e + 'a \<Rightarrow> ('a \<Rightarrow> 'e + 'b) \<Rightarrow> 'e + 'b" where
  "bind_err r f = (case r of Inl e \<Rightarrow> Inl e | Inr x \<Rightarrow> f x)"

definition bind_res :: "('e + 'a) option \<Rightarrow> ('a \<Rightarrow> ('e + 'b) option) \<Rightarrow> ('e + 'b) option" where
  "bind_res r f = (case r of None \<Rightarrow> None | Some (Inl e) \<Rightarrow> Some (Inl e) | Some (Inr x) \<Rightarrow> f x)"


subsection \<open>parseProtocolAnalyzer\<close>

datatype direction = orig | resp | both





subsection \<open>parseFileAnalyzer\<close>




subsection \<open>parsePacketAnalyzer\<close>




subsection \<open>parseEvent\<close>

text \<open>The loop over the argument expressions, up to the closing parenthesis.\<close>

fun event_args ::
  "nat \<Rightarrow> string \<Rightarrow> nat \<Rightarrow> bool \<Rightarrow> string list \<Rightarrow> (error + string list \<times> nat) option" where
  "event_args 0 chunk i first exprs = None"
| "event_args (Suc fuel) chunk i first exprs =
     (let j = looking_at chunk i '')''
      in if j \<noteq> 0 then Some (Inr (exprs, j))
         else bind_res (Some (if \<not> first then eat_token chunk i '','' else Inr i)) (\<lambda>i.
              bind_res (Some (extract_expr chunk i)) (\<lambda>(expr, i).
                event_args fuel chunk i False (exprs @ [expr]))))"

definition parseEvent :: "nat \<Rightarrow> location \<Rightarrow> string \<Rightarrow> (error + event) option" where
  "parseEvent fuel loc chunk =
     bind_res (Some (eat_token chunk 0 ''on'')) (\<lambda>i.
     bind_res (Some (extract_id chunk i)) (\<lambda>(path, i).
     bind_res (Some (if looking_at chunk i ''if'' \<noteq> 0
                     then bind_err (eat_token chunk i ''if'') (\<lambda>i.
                          bind_err (eat_token chunk i ''('') (\<lambda>i.
                          bind_err (extract_expr chunk i) (\<lambda>(cond, i).
                          bind_err (eat_token chunk i '')'') (\<lambda>i. Inr (cond, i)))))
                     else Inr ([], i))) (\<lambda>(cond, i).
     bind_res (Some (eat_token chunk i ''->'')) (\<lambda>i.
     bind_res (Some (eat_token chunk i ''event'')) (\<lambda>i.
     bind_res (Some (extract_id chunk i)) (\<lambda>(name, i).
     bind_res (Some (eat_token chunk i ''('')) (\<lambda>i.
     bind_res (event_args fuel chunk i True []) (\<lambda>(exprs, i).
     bind_res (Some (if looking_at chunk i ''&priority'' \<noteq> 0
                     then bind_err (eat_token chunk i ''&priority'') (\<lambda>i.
                          bind_err (eat_token chunk i ''='') (\<lambda>i. extract_int chunk i))
                     else Inr (- 1000, i))) (\<lambda>(priority, i).
     bind_res (Some (eat_token chunk i '';'')) (\<lambda>i.
       (let i = eat_spaces chunk i
        in if i < length chunk
           then Some (Inl (ParseError ''unexpected characters at end of line''))
           else Some (Inr ((new_event loc)
                      \<lparr>ev_path := path, ev_condition := cond, ev_name := name, ev_exprs := exprs,
                       ev_priority := priority\<rparr>)))))))))))))"

section \<open>The declaration store and GlueCompiler::loadEvtFile\<close>

text \<open>
  A grammar module known to the compiler (\<open>glue::SpicyModule\<close>): its id, its file, the
  \<open>.evt\<close> files with events for it, and the name of its hooks module once \<open>compile\<close>
  has created it. The members of \<open>GlueCompiler\<close>: the host version, the stack of
  locations, the four declaration lists, imports, exports and the module table.
\<close>

record spicy_module =
  sm_id :: ID
  sm_file :: string
  sm_evts :: "string set"
  sm_hooks_module :: "string option"

record glue_compiler =
  gc_zeek_version :: "int option"
  gc_locations :: "location list"
  gc_protocol_analyzers :: "protocol_analyzer list"
  gc_file_analyzers :: "file_analyzer list"
  gc_packet_analyzers :: "packet_analyzer list"
  gc_events :: "event list"
  gc_imports :: "(ID \<times> ID option) list"
  gc_exports :: "(ID \<times> location) list"
  gc_spicy_modules :: "ID \<rightharpoonup> spicy_module"





section \<open>Resolving events: GlueCompiler::PopulateEvents\<close>

text \<open>
  Modelled from the spec: the driver is not in src/. Its type index maps an id to the
  type's information or fails (\<open>lookupType\<close>); \<open>lookupType<Unit>\<close> in addition fails
  when the type is not a unit; \<open>types(true)\<close> lists the exported types. The parser of
  the grammar language is a library function: the model only asks whether an expression
  text parses. The expression for the linker scope is selected at build time.
\<close>

record driver =
  drv_types :: "ID \<rightharpoonup> type_info"
  drv_exported :: "type_info list"
  drv_debug :: bool
  drv_parses :: "string \<Rightarrow> bool"
  drv_linker_scope :: expr

definition is_unit :: "hilti_type \<Rightarrow> bool" where
  "is_unit t = (case kind t of TyUnit items \<Rightarrow> True | _ \<Rightarrow> False)"

definition lookupType :: "driver \<Rightarrow> ID \<Rightarrow> string + type_info" where
  "lookupType drv i = (case drv_types drv i of None \<Rightarrow> Inl ''unknown type'' | Some ti \<Rightarrow> Inr ti)"

definition lookupType_Unit :: "driver \<Rightarrow> ID \<Rightarrow> string + type_info" where
  "lookupType_Unit drv i =
     bind_err (lookupType drv i) (\<lambda>ti.
       if is_unit (ti_type ti) then Inr ti else Inl ''type is not of expected type'')"

text \<open>
  The second half of the loop body: \<open>uinfo.type.as<spicy::type::Unit>()\<close> stops the
  program when the type is not a unit, and so does the internal error for a module that
  is not in the module table.
\<close>

definition set_unit_info ::
  "(ID \<rightharpoonup> spicy_module) \<Rightarrow> event \<Rightarrow> type_info \<Rightarrow> error + event \<times> (ID \<rightharpoonup> spicy_module)" where
  "set_unit_info mods ev uinfo =
     (if \<not> is_unit (ti_type uinfo) then Inl (InternalError ''unexpected type, want unit'')
      else (let ev1 = ev\<lparr>ev_unit_type := Some (ti_type uinfo),
                         ev_unit_module_id := ti_module_id uinfo,
                         ev_unit_module_path := ti_module_path uinfo\<rparr>
            in case mods (ti_module_id uinfo) of
                 None \<Rightarrow> Inl (InternalError ''module not known in Spicy module list'')
               | Some m \<Rightarrow>
                   Inr (ev1\<lparr>ev_spicy_module := Some (ti_module_id uinfo),
                            ev_expression_accessors :=
                              ev_expression_accessors ev1
                                @ map (\<lambda>(nr, e). (Suc nr, e, ev_location ev1)) (enumerate 0 (ev_exprs ev1))\<rparr>,
                        mods(ti_module_id uinfo \<mapsto> m\<lparr>sm_evts := insert (ev_file ev1) (sm_evts m)\<rparr>))))"

text \<open>One event: \<open>Inr (False, _)\<close> is \<open>return false\<close>, with the event as modified so far.\<close>

definition populate_event ::
  "driver \<Rightarrow> (ID \<rightharpoonup> spicy_module) \<Rightarrow> event \<Rightarrow> error + bool \<times> event \<times> (ID \<rightharpoonup> spicy_module)" where
  "populate_event drv mods ev =
     (if ev_unit_type ev \<noteq> None then Inr (True, ev, mods)
      else (case lookupType_Unit drv (ev_path ev) of
              Inr ui \<Rightarrow>
                bind_err (set_unit_info mods
                            (ev\<lparr>ev_unit := ev_path ev, ev_hook := id_plus (ev_path ev) ''0x25_done''\<rparr>) ui)
                  (\<lambda>(ev1, mods1). Inr (True, ev1, mods1))
            | Inl err \<Rightarrow>
                (let ev1 = ev\<lparr>ev_unit := id_namespace (ev_path ev)\<rparr>
                 in if ev_unit ev1 = [] then Inr (False, ev1, mods)
                    else (case lookupType drv (ev_unit ev1) of
                            Inr ui \<Rightarrow>
                              bind_err (set_unit_info mods (ev1\<lparr>ev_hook := ev_path ev1\<rparr>) ui)
                                (\<lambda>(ev2, mods1). Inr (True, ev2, mods1))
                          | Inl err \<Rightarrow> Inr (False, ev1, mods)))))"

fun populate_loop ::
  "driver \<Rightarrow> (ID \<rightharpoonup> spicy_module) \<Rightarrow> event list \<Rightarrow> event list
     \<Rightarrow> error + bool \<times> event list \<times> (ID \<rightharpoonup> spicy_module)" where
  "populate_loop drv mods done [] = Inr (True, done, mods)"
| "populate_loop drv mods done (ev # evs) =
     (case populate_event drv mods ev of
        Inl e \<Rightarrow> Inl e
      | Inr (ok, ev1, mods1) \<Rightarrow>
          if ok then populate_loop drv mods1 (done @ [ev1]) evs
          else Inr (False, done @ ev1 # evs, mods1))"

definition PopulateEvents :: "driver \<Rightarrow> glue_compiler \<Rightarrow> error + bool \<times> glue_compiler" where
  "PopulateEvents drv gc =
     (case populate_loop drv (gc_spicy_modules gc) [] (gc_events gc) of
        Inl e \<Rightarrow> Inl e
      | Inr (ok, evs, mods) \<Rightarrow> Inr (ok, gc\<lparr>gc_events := evs, gc_spicy_modules := mods\<rparr>))"

text \<open>
  The invariant of a resolved event: its unit is an id that the type index resolves to a
  unit type, and either its path resolves to a unit type itself, the unit is the path and
  the hook is the unit followed by \<open>::0x25_done\<close>, or the path does not, the unit is the
  non-empty namespace of the path and the hook is the path.
\<close>

definition resolves_to_unit :: "driver \<Rightarrow> ID \<Rightarrow> bool" where
  "resolves_to_unit drv i = (case lookupType drv i of Inr ti \<Rightarrow> is_unit (ti_type ti) | Inl e \<Rightarrow> False)"

definition resolved :: "driver \<Rightarrow> event \<Rightarrow> bool" where
  "resolved drv ev =
     (resolves_to_unit drv (ev_unit ev)
      \<and> (if resolves_to_unit drv (ev_path ev)
         then ev_unit ev = ev_path ev \<and> ev_hook ev = ev_unit ev @ ''::0x25_done''
         else ev_unit ev = id_namespace (ev_path ev) \<and> ev_unit ev \<noteq> [] \<and> ev_hook ev = ev_path ev))"

section \<open>Generating the init module: GlueCompiler::compile\<close>

















text \<open>Examples: a driver that knows the unit \<open>HTTP::Request\<close> of module \<open>HTTP\<close> and
  exports one type that the projector does not support, and a store with an analyzer and
  two events for that unit.\<close>

definition example_unit :: type_info where
  "example_unit =
     \<lparr>ti_id = ''HTTP::Request'',
      ti_type = Type (Some ''HTTP::Request'') (TyUnit [ItemField ''uri'' (Type None TyBytes) False False]),
      ti_module_id = ''HTTP'', ti_module_path = ''http.spicy''\<rparr>"

definition example_driver :: driver where
  "example_driver =
     \<lparr>drv_types = [''HTTP::Request'' \<mapsto> example_unit],
      drv_exported = [\<lparr>ti_id = ''HTTP::Pattern'', ti_type = Type (Some ''HTTP::Pattern'') (TyOther ''regexp''),
                       ti_module_id = ''HTTP'', ti_module_path = ''http.spicy''\<rparr>,
                      \<lparr>ti_id = ''M::E'', ti_type = example_enum,
                       ti_module_id = ''M'', ti_module_path = ''m.spicy''\<rparr>],
      drv_debug = False, drv_parses = (\<lambda>e. True), drv_linker_scope = EScope\<rparr>"

definition example_events :: "event list" where
  "example_events =
     [(new_event (''a.evt'', 2))\<lparr>ev_file := ''a.evt'', ev_name := ''http::request'', ev_path := ''HTTP::Request'',
                                 ev_exprs := [''$conn'', ''self.uri'']\<rparr>,
      (new_event (''a.evt'', 3))\<lparr>ev_file := ''a.evt'', ev_name := ''http::init'',
                                 ev_path := ''HTTP::Request::0x25_init''\<rparr>]"

definition example_compile_store :: glue_compiler where
  "example_compile_store =
     \<lparr>gc_zeek_version = Some 50100, gc_locations = [],
      gc_protocol_analyzers =
        [(new_protocol_analyzer (''a.evt'', 1))
           \<lparr>pa_name := ''HTTP'', pa_protocol := TCP, pa_ports := [(80, TCP)],
            pa_unit_name_orig := ''HTTP::Request'', pa_unit_name_resp := ''HTTP::Request''\<rparr>],
      gc_file_analyzers = [], gc_packet_analyzers = [], gc_events = example_events,
      gc_imports = [], gc_exports = [],
      gc_spicy_modules = [''HTTP'' \<mapsto> \<lparr>sm_id = ''HTTP'', sm_file = ''http.spicy'', sm_evts = {},
                                        sm_hooks_module = None\<rparr>]\<rparr>"

text \<open>
  The declaration lists other than the events only grow: each list of the first store is a
  prefix of the corresponding list of the second. An example store, and an example file
  whose fourth statement does not parse.
\<close>

definition store_extended :: "glue_compiler \<Rightarrow> glue_compiler \<Rightarrow> bool" where
  "store_extended gc gc' =
     (prefix (gc_protocol_analyzers gc) (gc_protocol_analyzers gc')
      \<and> prefix (gc_file_analyzers gc) (gc_file_analyzers gc')
      \<and> prefix (gc_packet_analyzers gc) (gc_packet_analyzers gc')
      \<and> prefix (gc_imports gc) (gc_imports gc')
      \<and> prefix (gc_exports gc) (gc_exports gc'))"



section \<open>Theorems\<close>







lemma word16_le_65535: "(p :: 16 word) \<le> 65535"
proof -
  have "(65535 :: 16 word) = - 1" by simp
  then show ?thesis by (metis word_n1_ge)
qed

lemma extract_ports_loop_end_65535:
  "extract_ports_loop fuel p (Some (65535, pr)) proto acc = None"
  by (induction fuel arbitrary: p acc) (simp_all add: word16_le_65535)

lemma extract_ports_loop_single:
  "extract_ports_loop (Suc fuel) port None proto acc = Some (acc @ [(port, proto)])"
  by simp

lemma extract_ports_loop_range:
  "unat e < 65535 \<Longrightarrow> unat p \<le> Suc (unat e) \<Longrightarrow> Suc (unat e) - unat p < fuel \<Longrightarrow>
     extract_ports_loop fuel p (Some (e, pr)) proto acc
       = Some (acc @ map (\<lambda>k. (of_nat k, proto)) [unat p..<Suc (unat e)])"
proof (induction fuel arbitrary: p acc)
  case 0
  then show ?case by simp
next
  case (Suc fuel)
  show ?case
  proof (cases "p \<le> e")
    case True
    then have pe: "unat p \<le> unat e" by (simp add: word_le_nat_alt)
    with Suc.prems(1) have lt: "unat p < 65535" by simp
    have up: "unat (p + 1) = Suc (unat p)"
      using lt by (simp add: unat_word_ariths)
    have "extract_ports_loop fuel (p + 1) (Some (e, pr)) proto (acc @ [(p, proto)])
            = Some ((acc @ [(p, proto)]) @ map (\<lambda>k. (of_nat k, proto)) [unat (p + 1)..<Suc (unat e)])"
      using Suc.prems pe up by (intro Suc.IH) auto
    moreover have "[unat p..<Suc (unat e)] = unat p # [Suc (unat p)..<Suc (unat e)]"
      using pe by (simp add: upt_conv_Cons)
    ultimately show ?thesis using True up by simp
  next
    case False
    then have "unat e < unat p" by (simp add: word_le_nat_alt)
    with Suc.prems(2) have "unat p = Suc (unat e)" by simp
    with False show ?thesis by simp
  qed
qed

lemma extract_ports_loop_range_example:
  "extract_ports_loop 10 6000 (Some (6002, TCP)) TCP []
     = Some [(6000, TCP), (6001, TCP), (6002, TCP)]"
  using extract_ports_loop_range[of 6002 6000 10 TCP TCP "[]"]
  by (simp add: upt_rec)

text \<open>
  C1. A port range that ends at port 65535 is accepted by the checks of extract_ports
  (same protocol, start not after end), but its expansion loop never ends: the loop
  variable is a 16-bit port, \<open>port <= 65535\<close> holds for every value of it, and
  \<open>++port\<close> wraps from 65535 to 0. Whatever number of iterations is allowed, the loop
  on the chunk \<open>65535/tcp-65535/tcp\<close> is still running after them.
\<close>

theorem extract_ports_range_to_65535_never_returns:
  "\<forall>fuel. extract_ports fuel ''65535/tcp-65535/tcp'' 0 = None"
proof
  fix fuel
  have 1: "extract_port ''65535/tcp-65535/tcp'' 0 = Inr ((65535, TCP), 9)" by code_simp
  have 2: "looking_at ''65535/tcp-65535/tcp'' 9 ''-'' = 10" by code_simp
  have 3: "eat_token ''65535/tcp-65535/tcp'' 9 ''-'' = Inr 10" by code_simp
  have 4: "extract_port ''65535/tcp-65535/tcp'' 10 = Inr ((65535, TCP), 19)" by code_simp
  show "extract_ports fuel ''65535/tcp-65535/tcp'' 0 = None"
    by (simp add: extract_ports_def 1 2 3 4 extract_ports_loop_end_65535)
qed

text \<open>
  C8. extract_int accepts a sign with no digit after it: on the chunk \<open>-;\<close> it
  returns the integer 0 and moves the cursor past the sign instead of failing with
  "expected integer"; and it accepts the two signs of \<open>-+5\<close>, returning 0 with the
  cursor past the whole token. So the statement
  \<open>on X::Y -> event e() &priority=-;\<close> parses, to an event of priority 0.
\<close>

theorem extract_int_accepts_sign_without_digits:
  "extract_int ''-;'' 0 = Inr (0, 1)
   \<and> extract_int ''-+5'' 0 = Inr (0, 3)
   \<and> map_option (map_sum id ev_priority)
        (parseEvent 20 (''a.evt'', 1) ''on X::Y -> event e() &priority=-;'') = Some (Inr 0)"
  by code_simp

lemma add_labels_EnumType:
  "add_labels mx ns i labels (EnumType n es)
     = EnumType n (es @ map (\<lambda>l. (ns, i @ ''_'' @ fst l, if snd l = - 1 then mx else snd l)) labels)"
  by (induction labels arbitrary: es) auto

lemma collect_args_all_Some:
  "collect_args (map Some vs) vl location = Inr (vl @ vs)"
  by (induction vs arbitrary: vl) auto

lemma collect_args_None:
  "None \<in> set args \<Longrightarrow>
     collect_args args vl location = Inl (InvalidValue ''null value encountered after conversion'' location)"
  by (induction args arbitrary: vl) (auto split: option.splits)

text \<open>
  C6. The projector does not always remove the id it inserted: the current id is one
  member shared by all nested calls, so after a struct's fields have been projected it
  holds the id of the last field's type, and that is the id erased on exit. The inner
  example struct projects successfully and its own id stays in the set of types under
  construction; the outer example struct, with two sibling fields of the inner struct's
  type, therefore fails with "type is self-recursive" although no type refers to itself.
\<close>

theorem createZeekType_sibling_struct_reported_recursive:
  "(\<exists>e. fst (createZeekType \<lparr>zeek_types = {}, cur_id = None\<rparr> example_inner None) = Inr e)
   \<and> zeek_types (snd (createZeekType \<lparr>zeek_types = {}, cur_id = None\<rparr> example_inner None)) = {''M::S''}
   \<and> GlueCompiler_createZeekType example_outer ''M::T'' = Inl (Failure ''type is self-recursive'')"
  by (simp add: GlueCompiler_createZeekType_def example_outer_def example_inner_def example_enum_def
        id_namespace_def rsplit1_def is_abort_def record_call_def id_local_def
        createZeekType.simps dispatch.simps struct_fields.simps)

text \<open>
  C7. create_enum_type first looks the name \<open><ns>::<id>\<close> up among the host's types.
  When the host has no type of that name, it builds the enum type and adds one name per
  label, in order, called \<open><id>_<label>\<close>; a label whose value is -1 gets the maximum of
  the host's integer type as its value, every other label its own value. When the host
  has a type of that name, nothing is added: an enum type is returned as it is, and any
  other type is a fatal error. The compile-time projector emits the call of
  create_enum_type with the labels' values unchanged.
\<close>

theorem create_enum_type_translates_minus_one:
  "create_enum_type host zeek_int_max ns i labels
     = (case host (ns @ ''::'' @ i) of
          None \<Rightarrow>
            Inr (EnumType (ns @ ''::'' @ i)
                   (map (\<lambda>l. (ns, i @ ''_'' @ fst l, if snd l = - 1 then zeek_int_max else snd l)) labels))
        | Some t \<Rightarrow>
            if Tag t = TYPE_ENUM then Inr t
            else Inl (FatalError (''ID '' @ ns @ ''::'' @ i @ '' is not of expected type'')))
   \<and> (cur_id v = Some q \<longrightarrow>
      dispatch v (TyEnum labels)
        = (Some (Inr (Call ''zeek_rt::create_enum_type''
                   [EString (id_namespace q), EString (id_local q),
                    EVector (map (\<lambda>l. ETuple [EString (fst l), EInteger (snd l)]) labels)])), v))"
  by (simp add: create_enum_type_def findType_def add_labels_EnumType dispatch.simps split: option.splits)

theorem create_enum_type_translates_minus_one_witness:
  "create_enum_type Map.empty 9223372036854775807 ''M'' ''E'' [(''A'', 1), (''Undef'', - 1)]
       = Inr (EnumType ''M::E'' [(''M'', ''E_A'', 1), (''M'', ''E_Undef'', 9223372036854775807)])
   \<and> dispatch \<lparr>zeek_types = {''M::E''}, cur_id = Some ''M::E''\<rparr> (TyEnum [(''A'', 1), (''Undef'', - 1)])
       = (Some (Inr (Call ''zeek_rt::create_enum_type''
                  [EString ''M'', EString ''E'',
                   EVector [ETuple [EString ''A'', EInteger 1],
                            ETuple [EString ''Undef'', EInteger (- 1)]]])),
          \<lparr>zeek_types = {''M::E''}, cur_id = Some ''M::E''\<rparr>)"
  using create_enum_type_translates_minus_one
    [where host = Map.empty and ns = "''M''" and i = "''E''" and zeek_int_max = 9223372036854775807
       and labels = "[(''A'', 1), (''Undef'', - 1)]"
       and v = "\<lparr>zeek_types = {''M::E''}, cur_id = Some ''M::E''\<rparr>" and q = "''M::E''"]
  by (simp add: id_namespace_def id_local_def rsplit1_def)

text \<open>
  C7, the early return: the host already has an enum type \<open>M::E\<close> (here
  without names). create_enum_type returns it, and the label \<open>Undef\<close> with value -1 is
  not registered, neither with the maximum nor with any other value.
\<close>

theorem create_enum_type_existing_type_counterexample:
  "create_enum_type [''M::E'' \<mapsto> EnumType ''M::E'' []] 9223372036854775807 ''M'' ''E'' [(''Undef'', - 1)]
     = Inr (EnumType ''M::E'' [])
   \<and> create_enum_type [''M::E'' \<mapsto> EnumType ''M::E'' []] 9223372036854775807 ''M'' ''E'' [(''Undef'', - 1)]
     \<noteq> Inr (EnumType ''M::E'' [(''M'', ''E_Undef'', 9223372036854775807)])"
  by (simp add: create_enum_type_def findType_def)

text \<open>
  C10. raise_event enqueues the event exactly once, with the argument values in order,
  when the number of arguments equals the handler's number of parameters and no argument
  is null. Otherwise the queue is left as it was and an exception is thrown: TypeMismatch
  when the numbers differ (this is checked first), InvalidValue when the numbers agree
  and some argument is null.
\<close>

theorem raise_event_enqueues_once_or_throws:
  "(length vs = length (param_types handler) \<longrightarrow>
      raise_event handler (map Some vs) location queue = (None, queue @ [(handler, vs)]))
   \<and> (length args \<noteq> length (param_types handler) \<longrightarrow>
      (\<exists>m. raise_event handler args location queue = (Some (TypeMismatch m location), queue)))
   \<and> (length args = length (param_types handler) \<and> None \<in> set args \<longrightarrow>
      (\<exists>m. raise_event handler args location queue = (Some (InvalidValue m location), queue)))"
  by (simp add: raise_event_def collect_args_all_Some collect_args_None)

theorem raise_event_enqueues_once_or_throws_witness:
  "raise_event \<lparr>handler_name = ''http::req'', param_types = [''connection'', ''string'']\<rparr>
       (map Some [1 :: nat, 2]) ''a.evt:3'' []
     = (None, [(\<lparr>handler_name = ''http::req'', param_types = [''connection'', ''string'']\<rparr>, [1, 2])])
   \<and> (\<exists>m. raise_event \<lparr>handler_name = ''http::req'', param_types = [''connection'', ''string'']\<rparr>
              [Some (1 :: nat)] ''a.evt:3'' []
            = (Some (TypeMismatch m ''a.evt:3''), []))
   \<and> (\<exists>m. raise_event \<lparr>handler_name = ''http::req'', param_types = [''connection'', ''string'']\<rparr>
              [Some (1 :: nat), None] ''a.evt:3'' []
            = (Some (InvalidValue m ''a.evt:3''), []))"
  using raise_event_enqueues_once_or_throws
      [where vs = "[1 :: nat, 2]"
         and handler = "\<lparr>handler_name = ''http::req'', param_types = [''connection'', ''string'']\<rparr>"
         and args = "[Some (1 :: nat)]" and location = "''a.evt:3''" and queue = "[]"]
    raise_event_enqueues_once_or_throws
      [where vs = "[1 :: nat, 2]"
         and handler = "\<lparr>handler_name = ''http::req'', param_types = [''connection'', ''string'']\<rparr>"
         and args = "[Some (1 :: nat), None]" and location = "''a.evt:3''" and queue = "[]"]
  by simp

lemma split_lines_Nil [simp]: "split_lines [] = []"
  by (simp add: split_lines.simps getline_def)














lemma store_extended_refl [simp]: "store_extended gc gc"
  by (simp add: store_extended_def)


lemma store_extended_locations [simp]:
  "store_extended (gc\<lparr>gc_locations := l\<rparr>) gc' = store_extended gc gc'"
  "store_extended gc (gc'\<lparr>gc_locations := l\<rparr>) = store_extended gc gc'"
  by (simp_all add: store_extended_def)

lemma bind_res_Some:
  "bind_res r f = Some x \<Longrightarrow>
     (r = Some (Inl (projl x)) \<and> x = Inl (projl x)) \<or> (\<exists>y. r = Some (Inr y) \<and> f y = Some x)"
  by (auto simp: bind_res_def split: option.splits sum.splits)








lemma id_plus_nonempty: "a \<noteq> [] \<Longrightarrow> b \<noteq> [] \<Longrightarrow> id_plus a b = a @ ''::'' @ b"
  by (simp add: id_plus_def)

lemma lookupType_Unit_Inr:
  "lookupType_Unit drv i = Inr ui \<Longrightarrow> lookupType drv i = Inr ui \<and> is_unit (ti_type ui)"
  by (auto simp: lookupType_Unit_def bind_err_def split: sum.splits if_splits)

lemma lookupType_Unit_Inl:
  "lookupType_Unit drv i = Inl e \<Longrightarrow> \<not> resolves_to_unit drv i"
  by (auto simp: lookupType_Unit_def resolves_to_unit_def bind_err_def split: sum.splits if_splits)

lemma set_unit_info_fields:
  "set_unit_info mods ev ui = Inr (ev1, mods1) \<Longrightarrow>
     is_unit (ti_type ui) \<and> ev_unit ev1 = ev_unit ev \<and> ev_hook ev1 = ev_hook ev
     \<and> ev_path ev1 = ev_path ev \<and> ev_name ev1 = ev_name ev"
  by (auto simp: set_unit_info_def Let_def split: if_splits option.splits)

lemma populate_event_resolved:
  assumes "populate_event drv mods ev = Inr (True, ev1, mods1)"
    and "ev_path ev \<noteq> []"
    and "ev_unit_type ev \<noteq> None \<longrightarrow> resolved drv ev"
  shows "resolved drv ev1"
proof (cases "ev_unit_type ev = None")
  case False
  with assms show ?thesis by (simp add: populate_event_def)
next
  case True
  show ?thesis
  proof (cases "lookupType_Unit drv (ev_path ev)")
    case (Inr ui)
    from lookupType_Unit_Inr[OF Inr] have r: "resolves_to_unit drv (ev_path ev)"
      by (simp add: resolves_to_unit_def)
    from assms(1) True Inr obtain
      s: "set_unit_info mods (ev\<lparr>ev_unit := ev_path ev, ev_hook := id_plus (ev_path ev) ''0x25_done''\<rparr>) ui
            = Inr (ev1, mods1)"
      by (auto simp: populate_event_def bind_err_def split: sum.splits)
    from set_unit_info_fields[OF s] r assms(2) show ?thesis
      by (simp add: resolved_def id_plus_nonempty)
  next
    case (Inl e)
    from lookupType_Unit_Inl[OF Inl] have nr: "\<not> resolves_to_unit drv (ev_path ev)" .
    from assms(1) True Inl have ne: "id_namespace (ev_path ev) \<noteq> []"
      by (auto simp: populate_event_def Let_def split: if_splits)
    from assms(1) True Inl ne obtain ui where
      l: "lookupType drv (id_namespace (ev_path ev)) = Inr ui"
      and s: "set_unit_info mods (ev\<lparr>ev_unit := id_namespace (ev_path ev), ev_hook := ev_path ev\<rparr>) ui
            = Inr (ev1, mods1)"
      by (auto simp: populate_event_def Let_def bind_err_def split: sum.splits)
    from set_unit_info_fields[OF s] l nr ne show ?thesis
      by (simp add: resolved_def resolves_to_unit_def)
  qed
qed

lemma populate_loop_resolved:
  "populate_loop drv mods done evs = Inr (True, res, mods') \<Longrightarrow>
   \<forall>ev \<in> set done. resolved drv ev \<Longrightarrow>
   \<forall>ev \<in> set evs. ev_path ev \<noteq> [] \<and> (ev_unit_type ev \<noteq> None \<longrightarrow> resolved drv ev) \<Longrightarrow>
   \<forall>ev \<in> set res. resolved drv ev"
proof (induction evs arbitrary: mods "done")
  case Nil
  then show ?case by simp
next
  case (Cons ev evs)
  from Cons.prems(1) obtain ev1 mods1 where
    p: "populate_event drv mods ev = Inr (True, ev1, mods1)"
    and l: "populate_loop drv mods1 (done @ [ev1]) evs = Inr (True, res, mods')"
    by (auto split: sum.splits if_splits)
  from populate_event_resolved[OF p] Cons.prems(3) have "resolved drv ev1" by simp
  with Cons.prems(2) have d: "\<forall>e \<in> set (done @ [ev1]). resolved drv e" by simp
  from Cons.IH[OF l d] Cons.prems(3) show ?case by simp
qed

text \<open>
  C4. After PopulateEvents has succeeded, every event is resolved: its unit is an id that
  the driver's type index resolves to a unit type, and its hook is either its unit
  followed by \<open>::0x25_done\<close> (its path resolves to a unit type itself and is its unit),
  or its path (its unit is the non-empty namespace of the path). Events come from the
  parser, which never yields an empty path, and with an unset unit type; an event whose
  unit type is set was resolved by an earlier call and is skipped.
\<close>

theorem PopulateEvents_events_resolved:
  assumes "PopulateEvents drv gc = Inr (True, gc')"
    and "\<forall>ev \<in> set (gc_events gc). ev_path ev \<noteq> [] \<and> (ev_unit_type ev \<noteq> None \<longrightarrow> resolved drv ev)"
  shows "\<forall>ev \<in> set (gc_events gc'). resolved drv ev"
proof -
  from assms(1) obtain mods' where
    l: "populate_loop drv (gc_spicy_modules gc) [] (gc_events gc) = Inr (True, gc_events gc', mods')"
    by (auto simp: PopulateEvents_def split: sum.splits)
  from populate_loop_resolved[OF l _ assms(2)] show ?thesis by simp
qed

lemma view_sum_Inr:
  "map_sum id f r = Inr v \<Longrightarrow> \<exists>y. r = Inr y \<and> f y = v"
  by (cases r) auto

lemma example_PopulateEvents:
  "map_sum id (\<lambda>(b, g). (b, map (\<lambda>ev. (ev_unit ev, ev_hook ev)) (gc_events g)))
       (PopulateEvents example_driver example_compile_store)
     = Inr (True, [(''HTTP::Request'', ''HTTP::Request::0x25_done''),
                   (''HTTP::Request'', ''HTTP::Request::0x25_init'')])"
  by code_simp

lemma example_events_fresh:
  "\<forall>ev \<in> set (gc_events example_compile_store).
      ev_path ev \<noteq> [] \<and> (ev_unit_type ev \<noteq> None \<longrightarrow> resolved example_driver ev)"
  by (simp add: example_compile_store_def example_events_def new_event_def)

theorem PopulateEvents_events_resolved_witness:
  "\<exists>gc'. PopulateEvents example_driver example_compile_store = Inr (True, gc')
     \<and> list_all (resolved example_driver) (gc_events gc')
     \<and> map (\<lambda>ev. (ev_unit ev, ev_hook ev)) (gc_events gc')
         = [(''HTTP::Request'', ''HTTP::Request::0x25_done''),
            (''HTTP::Request'', ''HTTP::Request::0x25_init'')]"
proof -
  from view_sum_Inr[OF example_PopulateEvents] obtain y where
    y: "PopulateEvents example_driver example_compile_store = Inr y"
    and fy: "(\<lambda>(b, g). (b, map (\<lambda>ev. (ev_unit ev, ev_hook ev)) (gc_events g))) y
       = (True, [(''HTTP::Request'', ''HTTP::Request::0x25_done''),
                 (''HTTP::Request'', ''HTTP::Request::0x25_init'')])"
    by blast
  obtain b gc' where bg: "y = (b, gc')" by (cases y)
  from fy have b: "b = True"
    and f: "map (\<lambda>ev. (ev_unit ev, ev_hook ev)) (gc_events gc')
         = [(''HTTP::Request'', ''HTTP::Request::0x25_done''),
            (''HTTP::Request'', ''HTTP::Request::0x25_init'')]"
    unfolding bg by simp_all
  have l: "PopulateEvents example_driver example_compile_store = Inr (True, gc')"
    using y unfolding bg b .
  from PopulateEvents_events_resolved[OF l example_events_fresh]
  have r: "list_all (resolved example_driver) (gc_events gc')"
    by (simp add: list_all_iff)
  show ?thesis
    by (rule exI[of _ gc']) (intro conjI l r f)
qed















end
